theory Spec2Isabelle
  imports Main "HOL-Library.Signed_Division" "HOL-Library.Word"
begin

section \<open>The wrapper core: \<open>strong_typedef<Tag, T>\<close>\<close>

text \<open>
  \<open>template <class Tag, typename T> class strong_typedef\<close> owns one private member
  \<open>T value_\<close> (the selector \<open>value_field\<close>: an Isabelle name cannot end in an
  underscore). The tag is a phantom parameter: it takes no part in the stored data and only
  makes two wrappers over the same \<open>T\<close> different types.
\<close>

datatype ('tag, 'a) strong_typedef = Strong_typedef (value_field: 'a)

text \<open>
  The three constructors. \<open>strong_typedef() : value_()\<close> value-initialises the member; the
  value that \<open>T()\<close> denotes belongs to the representation type and is the parameter
  \<open>T_init\<close>. \<open>strong_typedef(const T& value) : value_(value)\<close> copies. The third one,
  \<open>strong_typedef(T&& value) : value_(static_cast<T&&>(value))\<close>, move-constructs the member:
  the new object receives the value the argument held, and the argument is left in the
  state the move constructor of \<open>T\<close> leaves behind (\<open>T_moved_from\<close>); both are returned.
\<close>

definition strong_typedef_default :: "'a \<Rightarrow> ('tag, 'a) strong_typedef" where
  "strong_typedef_default T_init = Strong_typedef T_init"

definition strong_typedef_copy :: "'a \<Rightarrow> ('tag, 'a) strong_typedef" where
  "strong_typedef_copy v = Strong_typedef v"

definition strong_typedef_move :: "('a \<Rightarrow> 'a) \<Rightarrow> 'a \<Rightarrow> ('tag, 'a) strong_typedef \<times> 'a" where
  "strong_typedef_move T_moved_from v = (Strong_typedef v, T_moved_from v)"

text \<open>
  The explicit conversion operators \<open>operator T&()\<close>, \<open>operator const T&() const\<close>,
  \<open>operator T&&() &&\<close>, \<open>operator const T&&() const &&\<close> all \<open>return value_\<close> (the last two
  through \<open>std::move\<close>); they differ in the kind of reference only. The four overloads of the
  free function \<open>get\<close> are \<open>static_cast\<close>s through these operators.
\<close>

definition conv_T :: "('tag, 'a) strong_typedef \<Rightarrow> 'a" where
  "conv_T w = value_field w"

definition get :: "('tag, 'a) strong_typedef \<Rightarrow> 'a" where
  "get type = conv_T type"

text \<open>The value-initialised \<open>int\<close> is zero.\<close>

definition int_init :: int where
  "int_init = 0"

section \<open>Objects and references\<close>

text \<open>
  Operators that modify an operand take it by reference (\<open>StrongTypedef&\<close>, \<open>*this\<close>). A
  reference is the address of an object in a store; an address with no object stands for a
  dangling reference, where the behaviour is undefined (\<open>None\<close>).
\<close>

type_synonym addr = nat

type_synonym ('tag, 'a) store = "addr \<Rightarrow> ('tag, 'a) strong_typedef option"

text \<open>
  \<open>friend void swap(strong_typedef& a, strong_typedef& b)\<close> calls the unqualified \<open>swap\<close> on
  \<open>static_cast<T&>(a)\<close> and \<open>static_cast<T&>(b)\<close>, the two members. \<open>std::swap\<close> is
  \<open>T tmp = std::move(x); x = std::move(y); y = std::move(tmp);\<close>: each move leaves its
  source in the moved-from state of \<open>T\<close> until the next assignment overwrites it.
\<close>

definition std_swap ::
  "('a \<Rightarrow> 'a) \<Rightarrow> ('tag, 'a) store \<Rightarrow> addr \<Rightarrow> addr \<Rightarrow> ('tag, 'a) store option" where
  "std_swap T_moved_from s x y =
     (case s x of
        None \<Rightarrow> None
      | Some ox \<Rightarrow>
          let tmp = conv_T ox;
              s1 = s(x \<mapsto> Strong_typedef (T_moved_from tmp))
          in (case s1 y of
                None \<Rightarrow> None
              | Some oy \<Rightarrow>
                  let vy = conv_T oy;
                      s2 = (s1(y \<mapsto> Strong_typedef (T_moved_from vy)))(x \<mapsto> Strong_typedef vy)
                  in Some (s2(y \<mapsto> Strong_typedef tmp))))"

definition swap ::
  "('a \<Rightarrow> 'a) \<Rightarrow> ('tag, 'a) store \<Rightarrow> addr \<Rightarrow> addr \<Rightarrow> ('tag, 'a) store option" where
  "swap T_moved_from s a b = std_swap T_moved_from s a b"

section \<open>Operators generated by the capability macros\<close>

text \<open>
  Every operator of the representation type is a partial function: \<open>None\<close> is undefined
  behaviour of the underlying operator (signed overflow, division by zero), which the
  wrapper inherits unchanged.

  \<open>detail::get_underlying<StrongTypedef>\<close> is \<open>get\<close> on either kind of reference.
\<close>

definition get_underlying :: "('tag, 'a) strong_typedef \<Rightarrow> 'a" where
  "get_underlying type = get type"

text \<open>
  \<open>Result(e)\<close> with \<open>Result = StrongTypedef\<close> constructs the wrapper from the temporary \<open>e\<close>
  through the \<open>T&&\<close> constructor; the temporary is discarded.
\<close>

definition Result_StrongTypedef :: "'a \<Rightarrow> ('tag, 'a) strong_typedef" where
  "Result_StrongTypedef e = fst (strong_typedef_move (\<lambda>x. x) e)"

text \<open>
  The constructor's parameter is a \<open>T\<close>. When the operator's result has another type (the
  operands of a representation narrower than \<open>int\<close> are promoted, and the result is an
  \<open>int\<close>), \<open>Result(e)\<close> first converts \<open>e\<close> implicitly to \<open>T\<close> (\<open>to_T\<close>) and constructs the
  wrapper from the converted value.
\<close>

definition Result_StrongTypedef_converted :: "('r \<Rightarrow> 'a) \<Rightarrow> 'r \<Rightarrow> ('tag, 'a) strong_typedef" where
  "Result_StrongTypedef_converted to_T e = Result_StrongTypedef (to_T e)"

text \<open>\<open>Result(e)\<close> with \<open>Result = bool\<close> (the comparison capabilities).\<close>

definition Result_bool :: "bool \<Rightarrow> bool" where
  "Result_bool e = e"

text \<open>
  \<open>TYPE_SAFE_DETAIL_MAKE_OP(Op, Name, Result)\<close>, same-type overloads. The four overloads
  (\<open>const Name&\<close> or \<open>Name&&\<close> on either side) have one body up to the casts:
  \<open>Result(get_underlying(lhs) Op get_underlying(rhs))\<close>.
\<close>

definition make_op ::
  "('a \<Rightarrow> 'a \<Rightarrow> 'r option) \<Rightarrow> ('r \<Rightarrow> 'res) \<Rightarrow>
   ('tag, 'a) strong_typedef \<Rightarrow> ('tag, 'a) strong_typedef \<Rightarrow> 'res option" where
  "make_op Op Result lhs rhs =
     map_option Result (Op (get_underlying lhs) (get_underlying rhs))"

text \<open>
  The guarded overloads of the same macro, \<open>(Name, Other&&)\<close> and \<open>(Other&&, Name)\<close>: the
  other operand is passed to \<open>get_underlying<StrongTypedef>\<close>, whose parameter is a
  \<open>StrongTypedef\<close>, so it is first converted implicitly to the wrapper (\<open>to_StrongTypedef\<close>).
\<close>

definition make_op_other_rhs ::
  "('a \<Rightarrow> 'a \<Rightarrow> 'r option) \<Rightarrow> ('r \<Rightarrow> 'res) \<Rightarrow> ('o \<Rightarrow> ('tag, 'a) strong_typedef) \<Rightarrow>
   ('tag, 'a) strong_typedef \<Rightarrow> 'o \<Rightarrow> 'res option" where
  "make_op_other_rhs Op Result to_StrongTypedef lhs rhs =
     map_option Result (Op (get_underlying lhs) (get_underlying (to_StrongTypedef rhs)))"

definition make_op_other_lhs ::
  "('a \<Rightarrow> 'a \<Rightarrow> 'r option) \<Rightarrow> ('r \<Rightarrow> 'res) \<Rightarrow> ('o \<Rightarrow> ('tag, 'a) strong_typedef) \<Rightarrow>
   'o \<Rightarrow> ('tag, 'a) strong_typedef \<Rightarrow> 'res option" where
  "make_op_other_lhs Op Result to_StrongTypedef lhs rhs =
     map_option Result (Op (get_underlying (to_StrongTypedef lhs)) (get_underlying rhs))"

text \<open>
  \<open>TYPE_SAFE_DETAIL_MAKE_OP_MIXED(Op, Name, Result)\<close>: \<open>Result(get(lhs) Op forward<Other>(rhs))\<close>
  and \<open>Result(forward<Other>(lhs) Op get(rhs))\<close>; the operator is the one of the
  representation with the other type.
\<close>

definition make_op_mixed_rhs ::
  "('a \<Rightarrow> 'o \<Rightarrow> 'r option) \<Rightarrow> ('r \<Rightarrow> 'res) \<Rightarrow> ('tag, 'a) strong_typedef \<Rightarrow> 'o \<Rightarrow> 'res option" where
  "make_op_mixed_rhs Op Result lhs rhs = map_option Result (Op (get lhs) rhs)"

definition make_op_mixed_lhs ::
  "('o \<Rightarrow> 'a \<Rightarrow> 'r option) \<Rightarrow> ('r \<Rightarrow> 'res) \<Rightarrow> 'o \<Rightarrow> ('tag, 'a) strong_typedef \<Rightarrow> 'res option" where
  "make_op_mixed_lhs Op Result lhs rhs = map_option Result (Op lhs (get rhs))"





text \<open>
  \<open>struct increment\<close>: \<open>operator++()\<close> increments the member of \<open>*this\<close> and returns
  \<open>*this\<close>; \<open>operator++(int)\<close> copies \<open>*this\<close> into \<open>result\<close>, runs \<open>++*this\<close> and returns the
  copy. \<open>struct decrement\<close> is the same with \<open>--\<close>.
\<close>

definition increment_prefix ::
  "('a \<Rightarrow> 'a option) \<Rightarrow> ('tag, 'a) store \<Rightarrow> addr \<Rightarrow> (('tag, 'a) store \<times> addr) option" where
  "increment_prefix T_inc s this =
     (case s this of
        None \<Rightarrow> None
      | Some w \<Rightarrow>
          (case T_inc (conv_T w) of
             None \<Rightarrow> None
           | Some v \<Rightarrow> Some (s(this \<mapsto> Strong_typedef v), this)))"

definition increment_postfix ::
  "('a \<Rightarrow> 'a option) \<Rightarrow> ('tag, 'a) store \<Rightarrow> addr \<Rightarrow>
   (('tag, 'a) store \<times> ('tag, 'a) strong_typedef) option" where
  "increment_postfix T_inc s this =
     (case s this of
        None \<Rightarrow> None
      | Some result \<Rightarrow>
          (case increment_prefix T_inc s this of
             None \<Rightarrow> None
           | Some (s', _) \<Rightarrow> Some (s', result)))"

definition decrement_prefix ::
  "('a \<Rightarrow> 'a option) \<Rightarrow> ('tag, 'a) store \<Rightarrow> addr \<Rightarrow> (('tag, 'a) store \<times> addr) option" where
  "decrement_prefix T_dec s this =
     (case s this of
        None \<Rightarrow> None
      | Some w \<Rightarrow>
          (case T_dec (conv_T w) of
             None \<Rightarrow> None
           | Some v \<Rightarrow> Some (s(this \<mapsto> Strong_typedef v), this)))"

definition decrement_postfix ::
  "('a \<Rightarrow> 'a option) \<Rightarrow> ('tag, 'a) store \<Rightarrow> addr \<Rightarrow>
   (('tag, 'a) store \<times> ('tag, 'a) strong_typedef) option" where
  "decrement_postfix T_dec s this =
     (case s this of
        None \<Rightarrow> None
      | Some result \<Rightarrow>
          (case decrement_prefix T_dec s this of
             None \<Rightarrow> None
           | Some (s', _) \<Rightarrow> Some (s', result)))"

text \<open>\<open>unary_plus\<close>, \<open>unary_minus\<close>, \<open>complement\<close>: \<open>StrongTypedef(Op get(lhs))\<close>.\<close>

definition make_unary ::
  "('a \<Rightarrow> 'r option) \<Rightarrow> ('r \<Rightarrow> 'a) \<Rightarrow> ('tag, 'a) strong_typedef \<Rightarrow>
   ('tag, 'a) strong_typedef option" where
  "make_unary Op to_T lhs = map_option (Result_StrongTypedef_converted to_T) (Op (get lhs))"

section \<open>The arithmetic capabilities\<close>

text \<open>
  The operators of a representation type \<open>T\<close>, to which the capabilities forward. A unary or
  binary operator yields a result of the type \<open>'r\<close> the language gives it: \<open>T\<close> itself for
  \<open>int\<close> and wider types and for class types, \<open>int\<close> for the integer types narrower than
  \<open>int\<close>, whose operands are promoted. \<open>T_from_result\<close> is the implicit conversion of such a
  result to \<open>T\<close>, \<open>T_to_result\<close> the promotion of a \<open>T\<close>. A compound operator and \<open>++\<close>/\<open>--\<close>
  yield the new value of the operand they modify. \<open>T_rvalue_assignable\<close> says whether a
  compound operator may have an rvalue as its left operand: never for a built-in type.
\<close>

record ('a, 'r) arithmetic_type =
  T_pos :: "'a \<Rightarrow> 'r option"
  T_neg :: "'a \<Rightarrow> 'r option"
  T_add :: "'a \<Rightarrow> 'a \<Rightarrow> 'r option"
  T_sub :: "'a \<Rightarrow> 'a \<Rightarrow> 'r option"
  T_mul :: "'a \<Rightarrow> 'a \<Rightarrow> 'r option"
  T_div :: "'a \<Rightarrow> 'a \<Rightarrow> 'r option"
  T_mod :: "'a \<Rightarrow> 'a \<Rightarrow> 'r option"
  T_from_result :: "'r \<Rightarrow> 'a"
  T_to_result :: "'a \<Rightarrow> 'r"
  T_add_assign :: "'a \<Rightarrow> 'a \<Rightarrow> 'a option"
  T_sub_assign :: "'a \<Rightarrow> 'a \<Rightarrow> 'a option"
  T_mul_assign :: "'a \<Rightarrow> 'a \<Rightarrow> 'a option"
  T_div_assign :: "'a \<Rightarrow> 'a \<Rightarrow> 'a option"
  T_mod_assign :: "'a \<Rightarrow> 'a \<Rightarrow> 'a option"
  T_inc :: "'a \<Rightarrow> 'a option"
  T_dec :: "'a \<Rightarrow> 'a option"
  T_rvalue_assignable :: bool

















text \<open>
  The \<open>int\<close> of the platform: 32 bits, two's complement, overflow undefined, division
  truncating towards zero and undefined for a zero divisor.
\<close>

definition INT_MIN :: int where
  "INT_MIN = - 2147483648"

definition INT_MAX :: int where
  "INT_MAX = 2147483647"

definition int_result :: "int \<Rightarrow> int option" where
  "int_result r = (if INT_MIN \<le> r \<and> r \<le> INT_MAX then Some r else None)"

definition int_divide :: "int \<Rightarrow> int \<Rightarrow> int option" where
  "int_divide a b = (if b = 0 then None else int_result (a sdiv b))"

definition int_modulo :: "int \<Rightarrow> int \<Rightarrow> int option" where
  "int_modulo a b =
     (if b = 0 then None
      else case int_result (a sdiv b) of None \<Rightarrow> None | Some _ \<Rightarrow> Some (a smod b))"

definition int_type :: "(int, int) arithmetic_type" where
  "int_type =
     \<lparr> T_pos = Some,
       T_neg = (\<lambda>a. int_result (- a)),
       T_add = (\<lambda>a b. int_result (a + b)),
       T_sub = (\<lambda>a b. int_result (a - b)),
       T_mul = (\<lambda>a b. int_result (a * b)),
       T_div = int_divide,
       T_mod = int_modulo,
       T_from_result = (\<lambda>r. r),
       T_to_result = (\<lambda>a. a),
       T_add_assign = (\<lambda>a b. int_result (a + b)),
       T_sub_assign = (\<lambda>a b. int_result (a - b)),
       T_mul_assign = (\<lambda>a b. int_result (a * b)),
       T_div_assign = int_divide,
       T_mod_assign = int_modulo,
       T_inc = (\<lambda>a. int_result (a + 1)),
       T_dec = (\<lambda>a. int_result (a - 1)),
       T_rvalue_assignable = False \<rparr>"






text \<open>
  The example of the header: \<open>struct my_int : strong_typedef<my_int, int>, ...\<close>. The tag
  is the class itself and carries no data.
\<close>

datatype my_int_tag = My_int_tag

type_synonym my_int = "(my_int_tag, int) strong_typedef"

text \<open>A wrapper over \<open>unsigned char\<close> with the same capabilities.\<close>

datatype my_byte_tag = My_byte_tag


section \<open>Iterators\<close>

text \<open>
  The operators of a representation type that is itself a random access iterator (a
  pointer, say), over elements \<open>'e\<close> and with \<open>Distance = std::ptrdiff_t\<close> read as an
  integer. \<open>None\<close> is undefined behaviour (leaving the array, dereferencing past the end,
  comparing iterators of different arrays).
\<close>

record ('p, 'e) iterator_type =
  It_deref :: "'p \<Rightarrow> 'e option"
  It_subscript :: "'p \<Rightarrow> int \<Rightarrow> 'e option"
  It_incr :: "'p \<Rightarrow> 'p option"
  It_decr :: "'p \<Rightarrow> 'p option"
  It_plus :: "'p \<Rightarrow> int \<Rightarrow> 'p option"
  It_minus :: "'p \<Rightarrow> int \<Rightarrow> 'p option"
  It_plus_assign :: "'p \<Rightarrow> int \<Rightarrow> 'p option"
  It_minus_assign :: "'p \<Rightarrow> int \<Rightarrow> 'p option"
  It_difference :: "'p \<Rightarrow> 'p \<Rightarrow> int option"
  It_equal :: "'p \<Rightarrow> 'p \<Rightarrow> bool option"
  It_not_equal :: "'p \<Rightarrow> 'p \<Rightarrow> bool option"
  It_less :: "'p \<Rightarrow> 'p \<Rightarrow> bool option"
  It_less_equal :: "'p \<Rightarrow> 'p \<Rightarrow> bool option"
  It_greater :: "'p \<Rightarrow> 'p \<Rightarrow> bool option"
  It_greater_equal :: "'p \<Rightarrow> 'p \<Rightarrow> bool option"


definition array_subscript_at ::
  "('p, 'e) iterator_type \<Rightarrow> ('tag, 'p) strong_typedef \<Rightarrow> int \<Rightarrow> 'e option" where
  "array_subscript_at I this i = It_subscript I (conv_T this) i"

text \<open>
  \<open>struct random_access_iterator\<close>: the members \<open>operator+=\<close> and \<open>operator-=\<close> apply the
  operator of the representation to the member and return \<open>*this\<close>; the friends
  \<open>iter + n\<close> and \<open>iter - n\<close> are \<open>StrongTypedef(static_cast<const type&>(iter) + n)\<close> (and
  \<open>- n\<close>), \<open>n + iter\<close> is \<open>return iter + n;\<close>, and \<open>lhs - rhs\<close> is the difference of the
  two members, a \<open>Distance\<close>.
\<close>

definition random_access_plus_assign ::
  "('p, 'e) iterator_type \<Rightarrow> ('tag, 'p) store \<Rightarrow> addr \<Rightarrow> int \<Rightarrow>
   (('tag, 'p) store \<times> addr) option" where
  "random_access_plus_assign I s this d =
     (case s this of
        None \<Rightarrow> None
      | Some w \<Rightarrow>
          (case It_plus_assign I (conv_T w) d of
             None \<Rightarrow> None
           | Some v \<Rightarrow> Some (s(this \<mapsto> Strong_typedef v), this)))"

definition random_access_minus_assign ::
  "('p, 'e) iterator_type \<Rightarrow> ('tag, 'p) store \<Rightarrow> addr \<Rightarrow> int \<Rightarrow>
   (('tag, 'p) store \<times> addr) option" where
  "random_access_minus_assign I s this d =
     (case s this of
        None \<Rightarrow> None
      | Some w \<Rightarrow>
          (case It_minus_assign I (conv_T w) d of
             None \<Rightarrow> None
           | Some v \<Rightarrow> Some (s(this \<mapsto> Strong_typedef v), this)))"



definition random_access_minus ::
  "('p, 'e) iterator_type \<Rightarrow> ('tag, 'p) strong_typedef \<Rightarrow> int \<Rightarrow>
   ('tag, 'p) strong_typedef option" where
  "random_access_minus I iter n = map_option Result_StrongTypedef (It_minus I (conv_T iter) n)"



definition relational_less_equal ::
  "('p, 'e) iterator_type \<Rightarrow> ('tag, 'p) strong_typedef \<Rightarrow> ('tag, 'p) strong_typedef \<Rightarrow>
   bool option" where
  "relational_less_equal I = make_op (It_less_equal I) Result_bool"

definition relational_greater ::
  "('p, 'e) iterator_type \<Rightarrow> ('tag, 'p) strong_typedef \<Rightarrow> ('tag, 'p) strong_typedef \<Rightarrow>
   bool option" where
  "relational_greater I = make_op (It_greater I) Result_bool"

definition relational_greater_equal ::
  "('p, 'e) iterator_type \<Rightarrow> ('tag, 'p) strong_typedef \<Rightarrow> ('tag, 'p) strong_typedef \<Rightarrow>
   bool option" where
  "relational_greater_equal I = make_op (It_greater_equal I) Result_bool"

definition equality_equal ::
  "('p, 'e) iterator_type \<Rightarrow> ('tag, 'p) strong_typedef \<Rightarrow> ('tag, 'p) strong_typedef \<Rightarrow>
   bool option" where
  "equality_equal I = make_op (It_equal I) Result_bool"

definition equality_not_equal ::
  "('p, 'e) iterator_type \<Rightarrow> ('tag, 'p) strong_typedef \<Rightarrow> ('tag, 'p) strong_typedef \<Rightarrow>
   bool option" where
  "equality_not_equal I = make_op (It_not_equal I) Result_bool"











text \<open>A wrapper type over \<open>int*\<close> composed with \<open>random_access_iterator\<close>.\<close>

datatype int_iterator_tag = Int_iterator_tag


section \<open>Types, classes and the convertibility guards\<close>

text \<open>
  Which operator overloads exist for a wrapper is decided at compile time, by template
  argument deduction and by the \<open>enable_if\<close> guards of the macros. The class templates of
  the header are named by \<open>template_name\<close>; a type is a fundamental type, a class declared
  by the user, a specialization of one of the header's templates, or a pointer, const or
  reference type built from these.
\<close>

datatype template_name =
    strong_typedef_template
  | equality_comparison | mixed_equality_comparison
  | relational_comparison | mixed_relational_comparison
  | addition | mixed_addition
  | subtraction | mixed_subtraction
  | multiplication | mixed_multiplication
  | division | mixed_division
  | modulo | mixed_modulo
  | increment | decrement | unary_plus | unary_minus
  | integer_arithmetic | floating_point_arithmetic
  | complement
  | bitwise_or | mixed_bitwise_or
  | bitwise_xor | mixed_bitwise_xor
  | bitwise_and | mixed_bitwise_and
  | bitmask | bitshift
  | dereference | array_subscript
  | iterator | input_iterator | output_iterator | forward_iterator
  | bidirectional_iterator | random_access_iterator
  | input_operator | output_operator

datatype cpp_type =
    Bool_t | Int_t | Long_t | Double_t
  | Class string
  | Template template_name "cpp_type list"
  | Pointer_to cpp_type
  | Const cpp_type
  | LRef cpp_type
  | RRef cpp_type

text \<open>
  A class declared by the user of the header: its public bases, whether it says
  \<open>using strong_typedef::strong_typedef;\<close>, and the converting constructors and conversion
  functions it declares itself, each with its parameter or target type (references and
  const included) and whether it is \<open>explicit\<close>. A program is the list of these
  declarations.
\<close>

record class_decl =
  class_name :: string
  bases :: "cpp_type list"
  using_base_constructors :: bool
  constructors :: "(cpp_type \<times> bool) list"
  conversion_functions :: "(cpp_type \<times> bool) list"

type_synonym program = "class_decl list"

text \<open>
  The bases the header gives to its own templates: the composite capabilities and the
  iterator ladder. All other templates of the header have no base.
\<close>

definition template_bases :: "template_name \<Rightarrow> cpp_type list \<Rightarrow> cpp_type list" where
  "template_bases name args =
     (case (name, args) of
        (integer_arithmetic, [S]) \<Rightarrow>
          [Template unary_plus [S], Template unary_minus [S], Template addition [S],
           Template subtraction [S], Template multiplication [S], Template division [S],
           Template modulo [S], Template increment [S], Template decrement [S]]
      | (floating_point_arithmetic, [S]) \<Rightarrow>
          [Template unary_plus [S], Template unary_minus [S], Template addition [S],
           Template subtraction [S], Template multiplication [S], Template division [S]]
      | (bitmask, [S]) \<Rightarrow>
          [Template complement [S], Template bitwise_or [S], Template bitwise_xor [S],
           Template bitwise_and [S]]
      | (iterator, [S, Category, T, Distance]) \<Rightarrow>
          [Template dereference [S, T, Pointer_to T, Pointer_to (Const T)],
           Template increment [S]]
      | (input_iterator, [S, T, Distance]) \<Rightarrow>
          [Template iterator [S, Class ''std::input_iterator_tag'', T, Distance],
           Template equality_comparison [S]]
      | (output_iterator, [S, T, Distance]) \<Rightarrow>
          [Template iterator [S, Class ''std::output_iterator_tag'', T, Distance]]
      | (forward_iterator, [S, T, Distance]) \<Rightarrow>
          [Template input_iterator [S, T, Distance]]
      | (bidirectional_iterator, [S, T, Distance]) \<Rightarrow>
          [Template forward_iterator [S, T, Distance], Template decrement [S]]
      | (random_access_iterator, [S, T, Distance]) \<Rightarrow>
          [Template bidirectional_iterator [S, T, Distance],
           Template array_subscript [S, T, Distance],
           Template relational_comparison [S]]
      | _ \<Rightarrow> [])"

text \<open>
  The constructors and conversion functions of the header's templates: only
  \<open>strong_typedef<Tag, T>\<close> has any, the constructors from \<open>const T&\<close> and \<open>T&&\<close> and the
  conversion operators to \<open>T&\<close>, \<open>const T&\<close>, \<open>T&&\<close> and \<open>const T&&\<close>, and every one of them
  is \<open>explicit\<close>.
\<close>

definition template_constructors :: "template_name \<Rightarrow> cpp_type list \<Rightarrow> (cpp_type \<times> bool) list" where
  "template_constructors name args =
     (case (name, args) of
        (strong_typedef_template, [Tag, T]) \<Rightarrow> [(LRef (Const T), True), (RRef T, True)]
      | _ \<Rightarrow> [])"

definition template_conversion_functions ::
  "template_name \<Rightarrow> cpp_type list \<Rightarrow> (cpp_type \<times> bool) list" where
  "template_conversion_functions name args =
     (case (name, args) of
        (strong_typedef_template, [Tag, T]) \<Rightarrow>
          [(LRef T, True), (LRef (Const T), True), (RRef T, True), (RRef (Const T), True)]
      | _ \<Rightarrow> [])"

definition find_class :: "program \<Rightarrow> string \<Rightarrow> class_decl option" where
  "find_class P c = find (\<lambda>d. class_name d = c) P"

definition direct_bases :: "program \<Rightarrow> cpp_type \<Rightarrow> cpp_type list" where
  "direct_bases P t =
     (case t of
        Class c \<Rightarrow> (case find_class P c of None \<Rightarrow> [] | Some d \<Rightarrow> bases d)
      | Template name args \<Rightarrow> template_bases name args
      | _ \<Rightarrow> [])"

text \<open>
  All direct and indirect bases. A class hierarchy has no cycle, so a path through it
  visits each declared class at most once and then at most the six levels of the iterator
  ladder: the depth bound of \<open>all_bases\<close> is never reached.
\<close>

fun bases_to_depth :: "nat \<Rightarrow> program \<Rightarrow> cpp_type \<Rightarrow> cpp_type list" where
  "bases_to_depth 0 P t = []"
| "bases_to_depth (Suc n) P t =
     concat (map (\<lambda>b. b # bases_to_depth n P b) (direct_bases P t))"

definition all_bases :: "program \<Rightarrow> cpp_type \<Rightarrow> cpp_type list" where
  "all_bases P t = bases_to_depth (length P + 6) P t"

text \<open>The type transformations and traits of \<open><type_traits>\<close> that the guards use.\<close>

fun remove_reference :: "cpp_type \<Rightarrow> cpp_type" where
  "remove_reference (LRef t) = t"
| "remove_reference (RRef t) = t"
| "remove_reference t = t"

fun remove_cv :: "cpp_type \<Rightarrow> cpp_type" where
  "remove_cv (Const t) = t"
| "remove_cv t = t"

fun is_const :: "cpp_type \<Rightarrow> bool" where
  "is_const (Const t) = True"
| "is_const t = False"

definition decay :: "cpp_type \<Rightarrow> cpp_type" where
  "decay t = remove_cv (remove_reference t)"

fun add_rvalue_reference :: "cpp_type \<Rightarrow> cpp_type" where
  "add_rvalue_reference (LRef t) = LRef t"
| "add_rvalue_reference (RRef t) = RRef t"
| "add_rvalue_reference t = RRef t"

fun is_class :: "cpp_type \<Rightarrow> bool" where
  "is_class (Class c) = True"
| "is_class (Template name args) = True"
| "is_class t = False"

fun is_arithmetic :: "cpp_type \<Rightarrow> bool" where
  "is_arithmetic Bool_t = True"
| "is_arithmetic Int_t = True"
| "is_arithmetic Long_t = True"
| "is_arithmetic Double_t = True"
| "is_arithmetic t = False"

definition is_same :: "cpp_type \<Rightarrow> cpp_type \<Rightarrow> bool" where
  "is_same a b = (a = b)"

definition is_base_of :: "program \<Rightarrow> cpp_type \<Rightarrow> cpp_type \<Rightarrow> bool" where
  "is_base_of P Base Derived =
     (is_class Base \<and> is_class Derived \<and> (Base = Derived \<or> Base \<in> set (all_bases P Derived)))"

text \<open>
  The constructors of a class: those it declares and, with the using-declaration, those of
  its \<open>strong_typedef\<close> base, which keep their \<open>explicit\<close>. Conversion functions are
  inherited from every base.
\<close>

fun inherited_constructors :: "cpp_type \<Rightarrow> (cpp_type \<times> bool) list" where
  "inherited_constructors (Template name args) = template_constructors name args"
| "inherited_constructors t = []"

definition constructors_of :: "program \<Rightarrow> cpp_type \<Rightarrow> (cpp_type \<times> bool) list" where
  "constructors_of P t =
     (case t of
        Class c \<Rightarrow>
          (case find_class P c of
             None \<Rightarrow> []
           | Some d \<Rightarrow>
               constructors d
               @ (if using_base_constructors d
                  then concat (map inherited_constructors (bases d)) else []))
      | Template name args \<Rightarrow> template_constructors name args
      | _ \<Rightarrow> [])"

definition own_conversion_functions :: "program \<Rightarrow> cpp_type \<Rightarrow> (cpp_type \<times> bool) list" where
  "own_conversion_functions P t =
     (case t of
        Class c \<Rightarrow> (case find_class P c of None \<Rightarrow> [] | Some d \<Rightarrow> conversion_functions d)
      | Template name args \<Rightarrow> template_conversion_functions name args
      | _ \<Rightarrow> [])"

definition conversion_functions_of :: "program \<Rightarrow> cpp_type \<Rightarrow> (cpp_type \<times> bool) list" where
  "conversion_functions_of P t = concat (map (own_conversion_functions P) (t # all_bases P t))"

text \<open>
  \<open>std::is_convertible<From, To>\<close>, for a \<open>From\<close> that is not a reference (the guards apply
  it to a decayed type): an implicit conversion of an rvalue of \<open>From\<close> to \<open>To\<close> exists. It is
  a standard conversion (the same type, two arithmetic types, a derived class to a base, a
  pointer to \<open>bool\<close>, a pointer to a pointer to the same or a base class that drops no
  const), or one non-explicit constructor of \<open>To\<close> whose parameter can bind an rvalue (not
  a non-const lvalue reference), or one non-explicit conversion function of \<open>From\<close>, with a
  standard conversion on its other side. An \<open>explicit\<close> member never takes part.
\<close>

fun pointer_conversion :: "program \<Rightarrow> cpp_type \<Rightarrow> cpp_type \<Rightarrow> bool" where
  "pointer_conversion P (Pointer_to D) Bool_t = True"
| "pointer_conversion P (Pointer_to D) (Pointer_to B) =
     ((remove_cv B = remove_cv D \<or> is_base_of P (remove_cv B) (remove_cv D))
      \<and> (if is_const D then is_const B else True))"
| "pointer_conversion P From To = False"

definition standard_conversion :: "program \<Rightarrow> cpp_type \<Rightarrow> cpp_type \<Rightarrow> bool" where
  "standard_conversion P From To =
     (From = To \<or> (is_arithmetic From \<and> is_arithmetic To) \<or> is_base_of P To From
      \<or> pointer_conversion P From To)"

fun binds_rvalue :: "cpp_type \<Rightarrow> bool" where
  "binds_rvalue (LRef (Const t)) = True"
| "binds_rvalue (LRef t) = False"
| "binds_rvalue t = True"

definition is_convertible :: "program \<Rightarrow> cpp_type \<Rightarrow> cpp_type \<Rightarrow> bool" where
  "is_convertible P From To =
     (standard_conversion P From To
      \<or> list_ex (\<lambda>(X, is_explicit).
             \<not> is_explicit \<and> binds_rvalue X \<and> standard_conversion P From (decay X))
           (constructors_of P To)
      \<or> list_ex (\<lambda>(Y, is_explicit). \<not> is_explicit \<and> standard_conversion P (decay Y) To)
           (conversion_functions_of P From))"

text \<open>
  The specializations of a template of the header among a type and its bases: what
  deduction against a parameter \<open>Name<StrongTypedef>\<close> can find. Deduction succeeds when
  there is exactly one.
\<close>

fun template_args :: "template_name \<Rightarrow> cpp_type \<Rightarrow> cpp_type list list" where
  "template_args name (Template n args) = (if n = name then [args] else [])"
| "template_args name t = []"

definition deduce :: "program \<Rightarrow> template_name \<Rightarrow> cpp_type \<Rightarrow> cpp_type list option" where
  "deduce P name t =
     (case remdups (concat (map (template_args name) (decay t # all_bases P (decay t)))) of
        [args] \<Rightarrow> Some args
      | _ \<Rightarrow> None)"

text \<open>
  \<open>underlying_type<StrongTypedef>\<close> is the return type of
  \<open>detail::underlying_type(std::declval<typename std::decay<StrongTypedef>::type>())\<close>, whose
  parameter is \<open>strong_typedef<Tag, T>\<close>: the \<open>T\<close> of the \<open>strong_typedef\<close> base.
\<close>

definition underlying_type :: "program \<Rightarrow> cpp_type \<Rightarrow> cpp_type option" where
  "underlying_type P StrongTypedef =
     (case deduce P strong_typedef_template StrongTypedef of
        Some [Tag, T] \<Rightarrow> Some T
      | _ \<Rightarrow> None)"

text \<open>
  The two guards of \<open>strong_typedef_op::detail\<close>, as the header writes them: every trait is
  applied to \<open>std::decay<From>::type\<close> and to \<open>To\<close>.
\<close>

definition enable_if_convertible :: "program \<Rightarrow> cpp_type \<Rightarrow> cpp_type \<Rightarrow> bool" where
  "enable_if_convertible P From To =
     (\<not> is_same (decay From) To
      \<and> \<not> is_base_of P To (decay From)
      \<and> is_convertible P (decay From) To)"

definition enable_if_convertible_same :: "program \<Rightarrow> cpp_type \<Rightarrow> cpp_type \<Rightarrow> bool" where
  "enable_if_convertible_same P From To = is_convertible P (decay From) To"

text \<open>
  The guard as the specification words it, for comparison: the third condition asks for a
  conversion to the representation type of \<open>S\<close> instead of a conversion to \<open>S\<close>.
\<close>

definition guard_to_representation :: "program \<Rightarrow> cpp_type \<Rightarrow> cpp_type \<Rightarrow> bool" where
  "guard_to_representation P Other S =
     (\<not> is_same (decay Other) S
      \<and> \<not> is_base_of P S (decay Other)
      \<and> (case underlying_type P S of
            None \<Rightarrow> False
          | Some T \<Rightarrow> is_convertible P (decay Other) T))"

section \<open>The overload sets of the binary operators\<close>

text \<open>
  An operand of an operator expression has a type (not a reference; possibly const) and
  is an lvalue or an rvalue.
\<close>

datatype value_category = lvalue | rvalue

type_synonym operand = "cpp_type \<times> value_category"

datatype binary_operator =
    Op_equal | Op_not_equal | Op_less | Op_less_equal | Op_greater | Op_greater_equal
  | Op_plus | Op_minus | Op_times | Op_divide | Op_modulo
  | Op_bit_or | Op_bit_xor | Op_bit_and | Op_shift_left | Op_shift_right

text \<open>
  The capability whose \<open>TYPE_SAFE_DETAIL_MAKE_OP\<close> instance declares the operator, and the
  one whose \<open>TYPE_SAFE_DETAIL_MAKE_OP_MIXED\<close> instance does, as the header instantiates the
  two macros (directly, or through \<open>TYPE_SAFE_DETAIL_MAKE_STRONG_TYPEDEF_OP\<close>).
\<close>

fun make_op_name :: "binary_operator \<Rightarrow> template_name option" where
  "make_op_name Op_equal = Some equality_comparison"
| "make_op_name Op_not_equal = Some equality_comparison"
| "make_op_name Op_less = Some relational_comparison"
| "make_op_name Op_less_equal = Some relational_comparison"
| "make_op_name Op_greater = Some relational_comparison"
| "make_op_name Op_greater_equal = Some relational_comparison"
| "make_op_name Op_plus = Some addition"
| "make_op_name Op_minus = Some subtraction"
| "make_op_name Op_times = Some multiplication"
| "make_op_name Op_divide = Some division"
| "make_op_name Op_modulo = Some modulo"
| "make_op_name Op_bit_or = Some bitwise_or"
| "make_op_name Op_bit_xor = Some bitwise_xor"
| "make_op_name Op_bit_and = Some bitwise_and"
| "make_op_name Op_shift_left = None"
| "make_op_name Op_shift_right = None"

fun make_op_mixed_name :: "binary_operator \<Rightarrow> template_name option" where
  "make_op_mixed_name Op_equal = Some mixed_equality_comparison"
| "make_op_mixed_name Op_not_equal = Some mixed_equality_comparison"
| "make_op_mixed_name Op_less = Some mixed_relational_comparison"
| "make_op_mixed_name Op_less_equal = Some mixed_relational_comparison"
| "make_op_mixed_name Op_greater = Some mixed_relational_comparison"
| "make_op_mixed_name Op_greater_equal = Some mixed_relational_comparison"
| "make_op_mixed_name Op_plus = Some mixed_addition"
| "make_op_mixed_name Op_minus = Some mixed_subtraction"
| "make_op_mixed_name Op_times = Some mixed_multiplication"
| "make_op_mixed_name Op_divide = Some mixed_division"
| "make_op_mixed_name Op_modulo = Some mixed_modulo"
| "make_op_mixed_name Op_bit_or = Some mixed_bitwise_or"
| "make_op_mixed_name Op_bit_xor = Some mixed_bitwise_xor"
| "make_op_mixed_name Op_bit_and = Some mixed_bitwise_and"
| "make_op_mixed_name Op_shift_left = Some bitshift"
| "make_op_mixed_name Op_shift_right = Some bitshift"

text \<open>
  The three parameter forms of the macros: \<open>const Name<...>&\<close>, \<open>Name<...>&&\<close> and the
  forwarding reference \<open>Other&&\<close>. The first binds any operand, the second a non-const
  rvalue only, the third any operand, deducing \<open>Other\<close> as an lvalue reference for an
  lvalue and as the plain type for an rvalue; the guards receive \<open>Other&&\<close>.
\<close>

datatype parameter = Const_Name_ref | Name_rvalue_ref | Other_forwarding_ref

fun binds :: "parameter \<Rightarrow> operand \<Rightarrow> bool" where
  "binds Const_Name_ref (t, c) = True"
| "binds Name_rvalue_ref (t, c) = (c = rvalue \<and> \<not> is_const t)"
| "binds Other_forwarding_ref (t, c) = True"

fun deduced_Other :: "operand \<Rightarrow> cpp_type" where
  "deduced_Other (t, lvalue) = LRef t"
| "deduced_Other (t, rvalue) = t"

definition guard_argument :: "operand \<Rightarrow> cpp_type" where
  "guard_argument x = add_rvalue_reference (deduced_Other x)"

text \<open>
  The overloads of one instance of \<open>TYPE_SAFE_DETAIL_MAKE_OP\<close>, in the order of the macro:
  four for two operands of the capability, then the four guarded by
  \<open>enable_if_convertible<Other&&, StrongTypedef>\<close>; and the four of
  \<open>TYPE_SAFE_DETAIL_MAKE_OP_MIXED\<close>, guarded by
  \<open>enable_if_convertible_same<Other&&, OtherArg>\<close>.
\<close>

datatype macro = MAKE_OP | MAKE_OP_MIXED

datatype overload = Overload macro parameter parameter

definition make_op_overloads :: "overload list" where
  "make_op_overloads =
     [Overload MAKE_OP Const_Name_ref Const_Name_ref,
      Overload MAKE_OP Name_rvalue_ref Const_Name_ref,
      Overload MAKE_OP Const_Name_ref Name_rvalue_ref,
      Overload MAKE_OP Name_rvalue_ref Name_rvalue_ref,
      Overload MAKE_OP Const_Name_ref Other_forwarding_ref,
      Overload MAKE_OP Name_rvalue_ref Other_forwarding_ref,
      Overload MAKE_OP Other_forwarding_ref Const_Name_ref,
      Overload MAKE_OP Other_forwarding_ref Name_rvalue_ref]"

definition make_op_mixed_overloads :: "overload list" where
  "make_op_mixed_overloads =
     [Overload MAKE_OP_MIXED Const_Name_ref Other_forwarding_ref,
      Overload MAKE_OP_MIXED Name_rvalue_ref Other_forwarding_ref,
      Overload MAKE_OP_MIXED Other_forwarding_ref Const_Name_ref,
      Overload MAKE_OP_MIXED Other_forwarding_ref Name_rvalue_ref]"

text \<open>
  An overload participates in overload resolution when its parameters bind the operands,
  its template parameters are deduced (\<open>StrongTypedef\<close>, and \<open>OtherArg\<close> for the mixed
  capabilities, from the operand passed as \<open>Name<...>\<close>; the same \<open>StrongTypedef\<close> from both
  operands where both are), and its guard holds.
\<close>

definition guarded_by_convertible :: "program \<Rightarrow> template_name \<Rightarrow> operand \<Rightarrow> operand \<Rightarrow> bool" where
  "guarded_by_convertible P name wrapper other =
     (case deduce P name (fst wrapper) of
        Some [StrongTypedef] \<Rightarrow> enable_if_convertible P (guard_argument other) StrongTypedef
      | _ \<Rightarrow> False)"

definition guarded_by_convertible_same ::
  "program \<Rightarrow> template_name \<Rightarrow> operand \<Rightarrow> operand \<Rightarrow> bool" where
  "guarded_by_convertible_same P name wrapper other =
     (case deduce P name (fst wrapper) of
        Some [StrongTypedef, OtherArg] \<Rightarrow>
          enable_if_convertible_same P (guard_argument other) OtherArg
      | _ \<Rightarrow> False)"

definition same_StrongTypedef :: "program \<Rightarrow> template_name \<Rightarrow> operand \<Rightarrow> operand \<Rightarrow> bool" where
  "same_StrongTypedef P name lhs rhs =
     (case (deduce P name (fst lhs), deduce P name (fst rhs)) of
        (Some [S], Some [S']) \<Rightarrow> S = S'
      | _ \<Rightarrow> False)"

fun participates :: "program \<Rightarrow> binary_operator \<Rightarrow> operand \<Rightarrow> operand \<Rightarrow> overload \<Rightarrow> bool" where
  "participates P Op lhs rhs (Overload MAKE_OP Other_forwarding_ref Other_forwarding_ref) = False"
| "participates P Op lhs rhs (Overload MAKE_OP pl Other_forwarding_ref) =
     (case make_op_name Op of
        None \<Rightarrow> False
      | Some name \<Rightarrow> binds pl lhs \<and> guarded_by_convertible P name lhs rhs)"
| "participates P Op lhs rhs (Overload MAKE_OP Other_forwarding_ref pr) =
     (case make_op_name Op of
        None \<Rightarrow> False
      | Some name \<Rightarrow> binds pr rhs \<and> guarded_by_convertible P name rhs lhs)"
| "participates P Op lhs rhs (Overload MAKE_OP pl pr) =
     (case make_op_name Op of
        None \<Rightarrow> False
      | Some name \<Rightarrow> binds pl lhs \<and> binds pr rhs \<and> same_StrongTypedef P name lhs rhs)"
| "participates P Op lhs rhs (Overload MAKE_OP_MIXED Other_forwarding_ref Other_forwarding_ref) = False"
| "participates P Op lhs rhs (Overload MAKE_OP_MIXED pl Other_forwarding_ref) =
     (case make_op_mixed_name Op of
        None \<Rightarrow> False
      | Some name \<Rightarrow> binds pl lhs \<and> guarded_by_convertible_same P name lhs rhs)"
| "participates P Op lhs rhs (Overload MAKE_OP_MIXED Other_forwarding_ref pr) =
     (case make_op_mixed_name Op of
        None \<Rightarrow> False
      | Some name \<Rightarrow> binds pr rhs \<and> guarded_by_convertible_same P name rhs lhs)"
| "participates P Op lhs rhs (Overload MAKE_OP_MIXED pl pr) = False"

definition viable_overloads ::
  "program \<Rightarrow> binary_operator \<Rightarrow> operand \<Rightarrow> operand \<Rightarrow> overload list" where
  "viable_overloads P Op lhs rhs =
     filter (participates P Op lhs rhs) (make_op_overloads @ make_op_mixed_overloads)"

text \<open>
  The other candidates of a binary operator expression. The built-in operators need each
  operand to convert implicitly to an arithmetic type. The friends that
  \<open>random_access_iterator<StrongTypedef, T, Distance>\<close> defines in the class are found when
  that class is a base of an operand's class: \<open>iter + n\<close>, \<open>n + iter\<close>, \<open>iter - n\<close> and
  \<open>lhs - rhs\<close>, with parameters \<open>const StrongTypedef&\<close> and \<open>const Distance&\<close>. (The stream
  operators of \<open>input_operator\<close> and \<open>output_operator\<close> need a stream operand; streams are
  not among the types here.)
\<close>

definition implicitly_arithmetic :: "program \<Rightarrow> operand \<Rightarrow> bool" where
  "implicitly_arithmetic P x =
     list_ex (is_convertible P (decay (fst x))) [Bool_t, Int_t, Long_t, Double_t]"

definition builtin_candidate :: "program \<Rightarrow> operand \<Rightarrow> operand \<Rightarrow> bool" where
  "builtin_candidate P lhs rhs = (implicitly_arithmetic P lhs \<and> implicitly_arithmetic P rhs)"

definition random_access_friend ::
  "program \<Rightarrow> binary_operator \<Rightarrow> operand \<Rightarrow> operand \<Rightarrow> cpp_type list \<Rightarrow> bool" where
  "random_access_friend P Op lhs rhs args =
     (case args of
        [StrongTypedef, T, Distance] \<Rightarrow>
          (let l = decay (fst lhs); r = decay (fst rhs)
           in (Op = Op_plus \<and>
                 ((is_convertible P l StrongTypedef \<and> is_convertible P r Distance)
                  \<or> (is_convertible P l Distance \<and> is_convertible P r StrongTypedef)))
              \<or> (Op = Op_minus \<and>
                 ((is_convertible P l StrongTypedef \<and> is_convertible P r Distance)
                  \<or> (is_convertible P l StrongTypedef \<and> is_convertible P r StrongTypedef))))
      | _ \<Rightarrow> False)"

definition friend_candidate :: "program \<Rightarrow> binary_operator \<Rightarrow> operand \<Rightarrow> operand \<Rightarrow> bool" where
  "friend_candidate P Op lhs rhs =
     list_ex (random_access_friend P Op lhs rhs)
       (concat (map (template_args random_access_iterator)
          (decay (fst lhs) # all_bases P (decay (fst lhs))
           @ decay (fst rhs) # all_bases P (decay (fst rhs)))))"

text \<open>An expression with no viable candidate at all is ill-formed.\<close>

definition rejected :: "program \<Rightarrow> binary_operator \<Rightarrow> operand \<Rightarrow> operand \<Rightarrow> bool" where
  "rejected P Op lhs rhs =
     (viable_overloads P Op lhs rhs = []
      \<and> \<not> builtin_candidate P lhs rhs
      \<and> \<not> friend_candidate P Op lhs rhs)"

text \<open>
  Choosing among the viable overloads of the macros. An operand passed as \<open>Other&&\<close> is
  bound without conversion; one passed as \<open>Name<...>\<close> needs the conversion to a base, and
  for an rvalue the binding to \<open>Name<...>&&\<close> is better than the one to \<open>const Name<...>&\<close>.
  An overload is selected when it is better than every other viable one: no worse on either
  operand and better on one.
\<close>

fun binding_rank :: "parameter \<Rightarrow> nat" where
  "binding_rank Other_forwarding_ref = 0"
| "binding_rank Name_rvalue_ref = 1"
| "binding_rank Const_Name_ref = 2"

fun better :: "overload \<Rightarrow> overload \<Rightarrow> bool" where
  "better (Overload m pl pr) (Overload m' pl' pr') =
     (binding_rank pl \<le> binding_rank pl' \<and> binding_rank pr \<le> binding_rank pr'
      \<and> (binding_rank pl < binding_rank pl' \<or> binding_rank pr < binding_rank pr'))"

definition selected_overload ::
  "program \<Rightarrow> binary_operator \<Rightarrow> operand \<Rightarrow> operand \<Rightarrow> overload option" where
  "selected_overload P Op lhs rhs =
     (let viable = viable_overloads P Op lhs rhs
      in case filter (\<lambda>f. list_all (\<lambda>g. g = f \<or> better f g) viable) viable of
           [f] \<Rightarrow> Some f
         | _ \<Rightarrow> None)"

text \<open>
  Two programs. In the first, \<open>W\<close> and \<open>W2\<close> are wrappers over \<open>int\<close> with the
  \<open>integer_arithmetic\<close> capability, written as in the example of the header. In the second
  they also have \<open>mixed_addition<..., int>\<close>, and a class \<open>Literal\<close> declares a non-explicit
  conversion function to \<open>W\<close>.
\<close>

definition wrapper_over_int :: "string \<Rightarrow> cpp_type list \<Rightarrow> class_decl" where
  "wrapper_over_int name capabilities =
     \<lparr> class_name = name,
       bases = Template strong_typedef_template [Class name, Int_t] # capabilities,
       using_base_constructors = True,
       constructors = [],
       conversion_functions = [] \<rparr>"

definition arithmetic_program :: program where
  "arithmetic_program =
     [wrapper_over_int ''W'' [Template integer_arithmetic [Class ''W'']],
      wrapper_over_int ''W2'' [Template integer_arithmetic [Class ''W2'']]]"

definition mixed_program :: program where
  "mixed_program =
     [wrapper_over_int ''W''
        [Template integer_arithmetic [Class ''W''], Template mixed_addition [Class ''W'', Int_t]],
      wrapper_over_int ''W2''
        [Template integer_arithmetic [Class ''W2''], Template mixed_addition [Class ''W2'', Int_t]],
      \<lparr> class_name = ''Literal'',
        bases = [],
        using_base_constructors = False,
        constructors = [],
        conversion_functions = [(Class ''W'', False)] \<rparr>]"

section \<open>The assertion primitive\<close>

text \<open>
  \<open>detail::constexpr_assert<Return>(condition, loc, message)\<close> of \<open>detail/assert.hpp\<close>. A
  call either returns a value or ends the process: with \<open>TYPE_SAFE_ENABLE_ASSERTIONS\<close> set
  and a false condition, the comma expression first calls
  \<open>assert_handler{}.handle(loc, "", message)\<close>, then \<open>std::abort()\<close>. The handler comes from
  the external \<open>debug_assert\<close> library; what it reports is recorded as the arguments it was
  given.
\<close>

record source_location =
  file_name :: string
  line_number :: nat

record handler_report =
  location :: source_location
  expression :: string
  message_text :: string

datatype 'r outcome = Returned 'r | Aborted "handler_report list"

definition handle :: "source_location \<Rightarrow> string \<Rightarrow> string \<Rightarrow> handler_report" where
  "handle loc e message = \<lparr> location = loc, expression = e, message_text = message \<rparr>"

text \<open>
  The preprocessor switch is an integer; \<open>#if TYPE_SAFE_ENABLE_ASSERTIONS\<close> takes the first
  branch when it is not zero (the header defaults it to 1). \<open>Return()\<close> is the
  value-initialised result type, the parameter \<open>Return_init\<close>.
\<close>

definition constexpr_assert ::
  "int \<Rightarrow> 'r \<Rightarrow> bool \<Rightarrow> source_location \<Rightarrow> string \<Rightarrow> 'r outcome" where
  "constexpr_assert TYPE_SAFE_ENABLE_ASSERTIONS Return_init condition loc message =
     (if TYPE_SAFE_ENABLE_ASSERTIONS \<noteq> 0
      then (if condition then Returned Return_init
            else Aborted [handle loc '''' message])
      else Returned Return_init)"

section \<open>Construction and extraction\<close>

text \<open>
  C4. For every representation value \<open>v\<close>, constructing a strong typedef from \<open>v\<close>, by copy
  or by move, and then explicitly extracting the underlying value (through \<open>get\<close> or through
  the conversion operator) yields \<open>v\<close>, whatever the move constructor of the representation
  leaves in its argument.
\<close>

theorem construct_then_get_roundtrip:
  "get (strong_typedef_copy v) = v
   \<and> conv_T (strong_typedef_copy v) = v
   \<and> get (fst (strong_typedef_move T_moved_from v)) = v
   \<and> conv_T (fst (strong_typedef_move T_moved_from v)) = v"
  by (simp add: get_def conv_T_def strong_typedef_copy_def strong_typedef_move_def)

text \<open>
  C8. The default constructor value-initialises the member: the extracted value is the
  value-initialised representation \<open>T()\<close>, which is zero for \<open>int\<close>.
\<close>

theorem default_constructed_value:
  "get (strong_typedef_default T_init) = T_init
   \<and> get (strong_typedef_default int_init) = 0"
  by (simp add: get_def conv_T_def strong_typedef_default_def int_init_def)

section \<open>Swap\<close>

lemma std_swap_result:
  assumes "s x = Some ox" and "s y = Some oy"
  shows "std_swap mf s x y =
           Some (((s(y \<mapsto> Strong_typedef (mf (conv_T (if x = y then Strong_typedef (mf (conv_T ox)) else oy)))))
                   (x \<mapsto> Strong_typedef (conv_T (if x = y then Strong_typedef (mf (conv_T ox)) else oy))))
                   (y \<mapsto> Strong_typedef (conv_T ox)))"
  using assms by (auto simp: std_swap_def Let_def fun_upd_twist)

text \<open>
  C7. For two wrapper objects \<open>a\<close> and \<open>b\<close> (at the distinct addresses \<open>pa\<close> and \<open>pb\<close>) over the
  same tag and representation, \<open>swap(a, b)\<close> returns, the value extracted from \<open>a\<close> afterwards
  is the value extracted from \<open>b\<close> before and vice versa, no other object changes, the same
  addresses hold objects, and the two stay independent: a later write to one of them is not
  seen through the other.
\<close>

theorem swap_exchanges_values:
  assumes "s pa = Some a" and "s pb = Some b" and "pa \<noteq> pb"
  shows "\<exists>s'. swap T_moved_from s pa pb = Some s'
           \<and> map_option get (s' pa) = Some (get b)
           \<and> map_option get (s' pb) = Some (get a)
           \<and> (\<forall>p. p \<noteq> pa \<and> p \<noteq> pb \<longrightarrow> s' p = s p)
           \<and> dom s' = dom s
           \<and> (\<forall>w. (s'(pa \<mapsto> w)) pb = s' pb)
           \<and> (\<forall>w. (s'(pb \<mapsto> w)) pa = s' pa)"
proof -
  let ?s' = "((s(pb \<mapsto> Strong_typedef (T_moved_from (conv_T b))))
                (pa \<mapsto> Strong_typedef (conv_T b)))(pb \<mapsto> Strong_typedef (conv_T a))"
  have run: "swap T_moved_from s pa pb = Some ?s'"
    using std_swap_result [OF assms(1) assms(2), of T_moved_from] assms(3)
    by (simp add: swap_def)
  have va: "map_option get (?s' pa) = Some (get b)"
    using assms(3) by (simp add: get_def conv_T_def)
  have vb: "map_option get (?s' pb) = Some (get a)"
    by (simp add: get_def conv_T_def)
  have others: "\<forall>p. p \<noteq> pa \<and> p \<noteq> pb \<longrightarrow> ?s' p = s p"
    by simp
  have "pa \<in> dom s" and "pb \<in> dom s"
    using assms(1) assms(2) by auto
  then have same_dom: "dom ?s' = dom s"
    by auto
  have indep: "(\<forall>w. (?s'(pa \<mapsto> w)) pb = ?s' pb) \<and> (\<forall>w. (?s'(pb \<mapsto> w)) pa = ?s' pa)"
    using assms(3) by simp
  from run va vb others same_dom indep show ?thesis
    by blast
qed

theorem swap_exchanges_values_witness:
  "\<exists>s'. swap (\<lambda>x. x) ((Map.empty(0 \<mapsto> Strong_typedef (3::int)))(1 \<mapsto> Strong_typedef 4)) 0 1 = Some s'
     \<and> map_option get (s' 0) = Some 4
     \<and> map_option get (s' 1) = Some 3"
proof -
  let ?s = "(Map.empty(0 \<mapsto> Strong_typedef (3::int)))(1::nat \<mapsto> Strong_typedef 4)"
  have a: "?s 0 = Some (Strong_typedef 3)" and b: "?s 1 = Some (Strong_typedef 4)"
    and d: "(0::nat) \<noteq> 1"
    by simp_all
  note w = swap_exchanges_values [OF a b d, of "\<lambda>x. x"]
  have g: "get (Strong_typedef (4::int)) = 4" "get (Strong_typedef (3::int)) = 3"
    by (simp_all add: get_def conv_T_def)
  from w show ?thesis
    unfolding g by (elim exE conjE) (intro exI conjI; assumption)
qed

section \<open>Increment and decrement\<close>

text \<open>
  C9. For a wrapper object at \<open>this\<close> holding \<open>w\<close> whose representation can be incremented to
  \<open>v\<close>: postfix \<open>++\<close> returns a wrapper holding the value the operand held before, and
  leaves the operand holding \<open>v\<close>; prefix \<open>++\<close> returns the reference to the operand itself,
  after it was set to \<open>v\<close>. The same holds for \<open>--\<close> with the decremented value \<open>u\<close>.
\<close>

theorem postfix_returns_old_prefix_returns_self:
  assumes "s this = Some w" and "T_inc' (get w) = Some v" and "T_dec' (get w) = Some u"
  shows "increment_postfix T_inc' s this = Some (s(this \<mapsto> Strong_typedef v), w)
       \<and> increment_prefix T_inc' s this = Some (s(this \<mapsto> Strong_typedef v), this)
       \<and> decrement_postfix T_dec' s this = Some (s(this \<mapsto> Strong_typedef u), w)
       \<and> decrement_prefix T_dec' s this = Some (s(this \<mapsto> Strong_typedef u), this)"
proof -
  have inc: "increment_prefix T_inc' s this = Some (s(this \<mapsto> Strong_typedef v), this)"
    using assms(1) assms(2) by (simp add: increment_prefix_def get_def)
  have dec: "decrement_prefix T_dec' s this = Some (s(this \<mapsto> Strong_typedef u), this)"
    using assms(1) assms(3) by (simp add: decrement_prefix_def get_def)
  have "increment_postfix T_inc' s this = Some (s(this \<mapsto> Strong_typedef v), w)"
    using assms(1) inc by (simp add: increment_postfix_def)
  moreover have "decrement_postfix T_dec' s this = Some (s(this \<mapsto> Strong_typedef u), w)"
    using assms(1) dec by (simp add: decrement_postfix_def)
  ultimately show ?thesis
    using inc dec by simp
qed

theorem postfix_returns_old_prefix_returns_self_witness:
  "increment_postfix (T_inc int_type) (Map.empty(7 \<mapsto> (Strong_typedef 41 :: my_int))) 7
     = Some (Map.empty(7 \<mapsto> Strong_typedef 42), Strong_typedef 41)
   \<and> increment_prefix (T_inc int_type) (Map.empty(7 \<mapsto> (Strong_typedef 41 :: my_int))) 7
     = Some (Map.empty(7 \<mapsto> Strong_typedef 42), 7)
   \<and> decrement_postfix (T_dec int_type) (Map.empty(7 \<mapsto> (Strong_typedef 41 :: my_int))) 7
     = Some (Map.empty(7 \<mapsto> Strong_typedef 40), Strong_typedef 41)
   \<and> decrement_prefix (T_dec int_type) (Map.empty(7 \<mapsto> (Strong_typedef 41 :: my_int))) 7
     = Some (Map.empty(7 \<mapsto> Strong_typedef 40), 7)"
proof -
  let ?s = "Map.empty(7::nat \<mapsto> (Strong_typedef 41 :: my_int))"
  have a: "?s 7 = Some (Strong_typedef 41)"
    by simp
  have i: "T_inc int_type (get (Strong_typedef 41 :: my_int)) = Some 42"
    by (simp add: int_type_def int_result_def INT_MIN_def INT_MAX_def get_def conv_T_def)
  have d: "T_dec int_type (get (Strong_typedef 41 :: my_int)) = Some 40"
    by (simp add: int_type_def int_result_def INT_MIN_def INT_MAX_def get_def conv_T_def)
  from postfix_returns_old_prefix_returns_self
         [of ?s 7 "Strong_typedef 41" "T_inc int_type" 42 "T_dec int_type" 40, OF a i d]
  show ?thesis
    by simp
qed

section \<open>Integer arithmetic\<close>













section \<open>The random access iterator contract\<close>














section \<open>The guard of the mixed-type overloads\<close>

lemma guarded_by_convertible_iff:
  "guarded_by_convertible P name wrapper other \<longleftrightarrow>
     (\<exists>S. deduce P name (fst wrapper) = Some [S]
          \<and> \<not> is_same (decay (guard_argument other)) S
          \<and> \<not> is_base_of P S (decay (guard_argument other))
          \<and> is_convertible P (decay (guard_argument other)) S)"
  by (auto simp: guarded_by_convertible_def enable_if_convertible_def
        split: option.splits list.splits)

lemma template_constructors_explicit:
  "(X, e) \<in> set (template_constructors name args) \<Longrightarrow> e"
  by (cases "name = strong_typedef_template")
     (auto simp: template_constructors_def split: template_name.splits list.splits)

lemma inherited_constructors_explicit:
  "(X, e) \<in> set (inherited_constructors t) \<Longrightarrow> e"
  by (cases t) (auto dest: template_constructors_explicit)

lemma bases_of_non_class: "\<not> is_class t \<Longrightarrow> bases_to_depth n P t = []"
  by (cases n; cases t) (simp_all add: direct_bases_def)

lemma conversion_functions_of_Int: "conversion_functions_of P Int_t = []"
  by (simp add: conversion_functions_of_def own_conversion_functions_def all_bases_def
        bases_of_non_class)

lemma constructors_of_wrapper_explicit:
  assumes "find_class P name = Some (wrapper_over_int name capabilities)"
    and "(X, e) \<in> set (constructors_of P (Class name))"
  shows e
  using assms
  by (auto simp: constructors_of_def wrapper_over_int_def
        dest: template_constructors_explicit inherited_constructors_explicit)

lemma int_not_convertible_to_wrapper:
  assumes "find_class P name = Some (wrapper_over_int name capabilities)"
  shows "\<not> is_convertible P Int_t (Class name)"
proof -
  have "\<not> standard_conversion P Int_t (Class name)"
    by (simp add: standard_conversion_def is_base_of_def)
  moreover have
    "\<not> list_ex (\<lambda>(X, is_explicit).
          \<not> is_explicit \<and> binds_rvalue X \<and> standard_conversion P Int_t (decay X))
        (constructors_of P (Class name))"
    using constructors_of_wrapper_explicit [OF assms] by (auto simp: list_ex_iff)
  ultimately show ?thesis
    by (simp add: is_convertible_def conversion_functions_of_Int)
qed

lemma decay_guard_argument_Int: "decay (guard_argument (Int_t, c)) = Int_t"
  by (cases c) (simp_all add: guard_argument_def decay_def)

text \<open>
  C1, as the specification states it, fails: for the wrapper \<open>W\<close> over \<open>int\<close> of the first
  program, a plain \<open>int\<close> operand is not \<open>W\<close>, is not derived from it and converts to the
  representation type \<open>int\<close>, yet the guard of the header rejects it, and the guarded
  overload of \<open>+\<close> does not participate for \<open>w + 4\<close>.
\<close>

theorem mixed_guard_plain_int_counterexample:
  "guard_to_representation arithmetic_program (guard_argument (Int_t, rvalue)) (Class ''W'')
   \<and> \<not> enable_if_convertible arithmetic_program (guard_argument (Int_t, rvalue)) (Class ''W'')
   \<and> \<not> participates arithmetic_program Op_plus (Class ''W'', lvalue) (Int_t, rvalue)
         (Overload MAKE_OP Const_Name_ref Other_forwarding_ref)"
  by code_simp

text \<open>
  C1, amended. For every operator that \<open>TYPE_SAFE_DETAIL_MAKE_OP\<close> generates, each of the
  four overloads taking \<open>(S, Other)\<close> or \<open>(Other, S)\<close> participates in overload resolution
  exactly when its \<open>Name<S>\<close> parameter binds its operand and deduces \<open>S\<close>, and \<open>Other\<close>,
  after stripping the reference and const, is (a) not identical to \<open>S\<close>, (b) not derived
  from \<open>S\<close>, and (c) implicitly convertible to \<open>S\<close> itself. In particular, for a wrapper over
  \<open>int\<close> declared as in the header's example, whose constructor from \<open>int\<close> is explicit, a
  plain \<open>int\<close> operand never satisfies the guard.
\<close>

theorem guarded_overloads_participate_iff:
  "(participates P Op lhs rhs (Overload MAKE_OP Const_Name_ref Other_forwarding_ref) \<longleftrightarrow>
      (\<exists>name S. make_op_name Op = Some name \<and> deduce P name (fst lhs) = Some [S]
         \<and> \<not> is_same (decay (guard_argument rhs)) S
         \<and> \<not> is_base_of P S (decay (guard_argument rhs))
         \<and> is_convertible P (decay (guard_argument rhs)) S))
   \<and> (participates P Op lhs rhs (Overload MAKE_OP Name_rvalue_ref Other_forwarding_ref) \<longleftrightarrow>
      binds Name_rvalue_ref lhs \<and>
      (\<exists>name S. make_op_name Op = Some name \<and> deduce P name (fst lhs) = Some [S]
         \<and> \<not> is_same (decay (guard_argument rhs)) S
         \<and> \<not> is_base_of P S (decay (guard_argument rhs))
         \<and> is_convertible P (decay (guard_argument rhs)) S))
   \<and> (participates P Op lhs rhs (Overload MAKE_OP Other_forwarding_ref Const_Name_ref) \<longleftrightarrow>
      (\<exists>name S. make_op_name Op = Some name \<and> deduce P name (fst rhs) = Some [S]
         \<and> \<not> is_same (decay (guard_argument lhs)) S
         \<and> \<not> is_base_of P S (decay (guard_argument lhs))
         \<and> is_convertible P (decay (guard_argument lhs)) S))
   \<and> (participates P Op lhs rhs (Overload MAKE_OP Other_forwarding_ref Name_rvalue_ref) \<longleftrightarrow>
      binds Name_rvalue_ref rhs \<and>
      (\<exists>name S. make_op_name Op = Some name \<and> deduce P name (fst rhs) = Some [S]
         \<and> \<not> is_same (decay (guard_argument lhs)) S
         \<and> \<not> is_base_of P S (decay (guard_argument lhs))
         \<and> is_convertible P (decay (guard_argument lhs)) S))
   \<and> (find_class P W = Some (wrapper_over_int W capabilities) \<longrightarrow>
        \<not> enable_if_convertible P (guard_argument (Int_t, c)) (Class W))"
proof -
  have bind_any: "binds Const_Name_ref x" for x
    by (cases x) simp
  have overloads:
    "participates P Op lhs rhs (Overload MAKE_OP Const_Name_ref Other_forwarding_ref) \<longleftrightarrow>
      (\<exists>name S. make_op_name Op = Some name \<and> deduce P name (fst lhs) = Some [S]
         \<and> \<not> is_same (decay (guard_argument rhs)) S
         \<and> \<not> is_base_of P S (decay (guard_argument rhs))
         \<and> is_convertible P (decay (guard_argument rhs)) S)"
    "participates P Op lhs rhs (Overload MAKE_OP Name_rvalue_ref Other_forwarding_ref) \<longleftrightarrow>
      binds Name_rvalue_ref lhs \<and>
      (\<exists>name S. make_op_name Op = Some name \<and> deduce P name (fst lhs) = Some [S]
         \<and> \<not> is_same (decay (guard_argument rhs)) S
         \<and> \<not> is_base_of P S (decay (guard_argument rhs))
         \<and> is_convertible P (decay (guard_argument rhs)) S)"
    "participates P Op lhs rhs (Overload MAKE_OP Other_forwarding_ref Const_Name_ref) \<longleftrightarrow>
      (\<exists>name S. make_op_name Op = Some name \<and> deduce P name (fst rhs) = Some [S]
         \<and> \<not> is_same (decay (guard_argument lhs)) S
         \<and> \<not> is_base_of P S (decay (guard_argument lhs))
         \<and> is_convertible P (decay (guard_argument lhs)) S)"
    "participates P Op lhs rhs (Overload MAKE_OP Other_forwarding_ref Name_rvalue_ref) \<longleftrightarrow>
      binds Name_rvalue_ref rhs \<and>
      (\<exists>name S. make_op_name Op = Some name \<and> deduce P name (fst rhs) = Some [S]
         \<and> \<not> is_same (decay (guard_argument lhs)) S
         \<and> \<not> is_base_of P S (decay (guard_argument lhs))
         \<and> is_convertible P (decay (guard_argument lhs)) S)"
    by (cases "make_op_name Op"; simp add: guarded_by_convertible_iff bind_any)+
  have plain_int: "find_class P W = Some (wrapper_over_int W capabilities) \<longrightarrow>
      \<not> enable_if_convertible P (guard_argument (Int_t, c)) (Class W)"
    using int_not_convertible_to_wrapper [of P W capabilities]
    by (simp add: enable_if_convertible_def decay_guard_argument_Int)
  from overloads plain_int show ?thesis
    by (intro conjI)
qed

theorem guarded_overloads_participate_iff_witness:
  "participates mixed_program Op_plus (Class ''W'', rvalue) (Class ''Literal'', rvalue)
     (Overload MAKE_OP Const_Name_ref Other_forwarding_ref)
   \<and> \<not> enable_if_convertible mixed_program (guard_argument (Int_t, rvalue)) (Class ''W'')"
proof -
  note t = guarded_overloads_participate_iff
             [of mixed_program Op_plus "(Class ''W'', rvalue)" "(Class ''Literal'', rvalue)" "''W''"
                 "[Template integer_arithmetic [Class ''W''], Template mixed_addition [Class ''W'', Int_t]]"
                 rvalue]
  have "make_op_name Op_plus = Some addition
      \<and> deduce mixed_program addition (fst (Class ''W'', rvalue)) = Some [Class ''W'']
      \<and> \<not> is_same (decay (guard_argument (Class ''Literal'', rvalue))) (Class ''W'')
      \<and> \<not> is_base_of mixed_program (Class ''W'') (decay (guard_argument (Class ''Literal'', rvalue)))
      \<and> is_convertible mixed_program (decay (guard_argument (Class ''Literal'', rvalue))) (Class ''W'')"
    by code_simp
  then have "\<exists>name S. make_op_name Op_plus = Some name
      \<and> deduce mixed_program name (fst (Class ''W'', rvalue)) = Some [S]
      \<and> \<not> is_same (decay (guard_argument (Class ''Literal'', rvalue))) S
      \<and> \<not> is_base_of mixed_program S (decay (guard_argument (Class ''Literal'', rvalue)))
      \<and> is_convertible mixed_program (decay (guard_argument (Class ''Literal'', rvalue))) S"
    by blast
  with t have first: "participates mixed_program Op_plus (Class ''W'', rvalue)
      (Class ''Literal'', rvalue) (Overload MAKE_OP Const_Name_ref Other_forwarding_ref)"
    by blast
  have "find_class mixed_program ''W''
      = Some (wrapper_over_int ''W''
          [Template integer_arithmetic [Class ''W''], Template mixed_addition [Class ''W'', Int_t]])"
    by code_simp
  with t have "\<not> enable_if_convertible mixed_program (guard_argument (Int_t, rvalue)) (Class ''W'')"
    by blast
  with first show ?thesis
    by (rule conjI)
qed

section \<open>Mixed-type arithmetic\<close>

text \<open>
  C5, as the specification states it, fails: for the wrapper \<open>W\<close> over \<open>int\<close> that has the
  \<open>integer_arithmetic\<close> capability and nothing else, neither \<open>W(3) + 4\<close> nor \<open>4 + W(3)\<close> has
  a viable candidate, so both are rejected at compile time instead of yielding \<open>W(7)\<close>.
\<close>

theorem plain_int_operand_rejected_counterexample:
  "rejected arithmetic_program Op_plus (Class ''W'', rvalue) (Int_t, rvalue)
   \<and> rejected arithmetic_program Op_plus (Int_t, rvalue) (Class ''W'', rvalue)"
  by code_simp

text \<open>
  C5, amended. For a wrapper \<open>W\<close> over \<open>int\<close> with the \<open>integer_arithmetic\<close> capability and,
  in addition, \<open>mixed_addition<W, int>\<close>: \<open>W(3) + 4\<close> selects the overload
  \<open>(mixed_addition&&, Other&&)\<close> of \<open>TYPE_SAFE_DETAIL_MAKE_OP_MIXED\<close>, whose body yields
  \<open>W(7)\<close>; \<open>4 + W(3)\<close> selects \<open>(Other&&, mixed_addition&&)\<close>, whose body yields \<open>W(7)\<close>; and
  adding a value of the different wrapper type \<open>W2\<close> over \<open>int\<close> to \<open>W(3)\<close> is rejected at
  compile time, with the mixed capability and without it.
\<close>

theorem mixed_addition_with_int:
  "selected_overload mixed_program Op_plus (Class ''W'', rvalue) (Int_t, rvalue)
     = Some (Overload MAKE_OP_MIXED Name_rvalue_ref Other_forwarding_ref)
   \<and> make_op_mixed_rhs (T_add int_type) Result_StrongTypedef (Strong_typedef 3 :: my_int) 4
     = Some (Strong_typedef 7)
   \<and> selected_overload mixed_program Op_plus (Int_t, rvalue) (Class ''W'', rvalue)
     = Some (Overload MAKE_OP_MIXED Other_forwarding_ref Name_rvalue_ref)
   \<and> make_op_mixed_lhs (T_add int_type) Result_StrongTypedef 4 (Strong_typedef 3 :: my_int)
     = Some (Strong_typedef 7)
   \<and> rejected mixed_program Op_plus (Class ''W'', rvalue) (Class ''W2'', rvalue)
   \<and> rejected arithmetic_program Op_plus (Class ''W'', rvalue) (Class ''W2'', rvalue)"
proof -
  have rhs: "selected_overload mixed_program Op_plus (Class ''W'', rvalue) (Int_t, rvalue)
      = Some (Overload MAKE_OP_MIXED Name_rvalue_ref Other_forwarding_ref)"
    by code_simp
  have lhs: "selected_overload mixed_program Op_plus (Int_t, rvalue) (Class ''W'', rvalue)
      = Some (Overload MAKE_OP_MIXED Other_forwarding_ref Name_rvalue_ref)"
    by code_simp
  have sum: "T_add int_type 3 4 = Some 7" "T_add int_type 4 3 = Some 7"
    by (simp_all add: int_type_def int_result_def INT_MIN_def INT_MAX_def)
  have rhs_value:
    "make_op_mixed_rhs (T_add int_type) Result_StrongTypedef (Strong_typedef 3 :: my_int) 4
       = Some (Strong_typedef 7)"
    by (simp add: make_op_mixed_rhs_def get_def conv_T_def sum Result_StrongTypedef_def
          strong_typedef_move_def)
  have lhs_value:
    "make_op_mixed_lhs (T_add int_type) Result_StrongTypedef 4 (Strong_typedef 3 :: my_int)
       = Some (Strong_typedef 7)"
    by (simp add: make_op_mixed_lhs_def get_def conv_T_def sum Result_StrongTypedef_def
          strong_typedef_move_def)
  have other_wrapper:
    "rejected mixed_program Op_plus (Class ''W'', rvalue) (Class ''W2'', rvalue)"
    "rejected arithmetic_program Op_plus (Class ''W'', rvalue) (Class ''W2'', rvalue)"
    by code_simp+
  from rhs rhs_value lhs lhs_value other_wrapper show ?thesis
    by (intro conjI)
qed

section \<open>Behaviour of the assertion primitive\<close>

text \<open>
  C6. With assertions enabled (any non-zero setting), a false condition makes the assertion
  primitive report the location and the message and then terminate the process; with
  assertions disabled the same call returns the default-constructed value of the result
  type and does not terminate.
\<close>

theorem constexpr_assert_false_condition:
  "constexpr_assert 1 Return_init False loc message
     = Aborted [\<lparr> location = loc, expression = '''', message_text = message \<rparr>]
   \<and> (\<forall>level. level \<noteq> 0 \<longrightarrow>
         constexpr_assert level Return_init False loc message
           = Aborted [\<lparr> location = loc, expression = '''', message_text = message \<rparr>])
   \<and> constexpr_assert 0 Return_init False loc message = Returned Return_init"
  by (simp add: constexpr_assert_def handle_def)

theorem constexpr_assert_false_condition_witness:
  "(2::int) \<noteq> 0
   \<and> constexpr_assert 2 (0::int) False \<lparr> file_name = ''a.cpp'', line_number = 12 \<rparr> ''bad index''
       = Aborted [\<lparr> location = \<lparr> file_name = ''a.cpp'', line_number = 12 \<rparr>,
                    expression = '''', message_text = ''bad index'' \<rparr>]"
  using constexpr_assert_false_condition
          [of "0::int" "\<lparr> file_name = ''a.cpp'', line_number = 12 \<rparr>" "''bad index''"]
  by simp

text \<open>
  C10. Whenever the assertion primitive returns, the returned value is the
  default-constructed value of the requested type, whatever the setting, the condition, the
  location and the message are; and it does return when the condition is true or the
  assertions are disabled.
\<close>

theorem constexpr_assert_returns_default:
  "(constexpr_assert level Return_init condition loc message = Returned r \<longrightarrow> r = Return_init)
   \<and> (condition \<or> level = 0 \<longrightarrow>
        constexpr_assert level Return_init condition loc message = Returned Return_init)"
  by (simp add: constexpr_assert_def)

theorem constexpr_assert_returns_default_witness:
  "constexpr_assert 1 (0::int) True \<lparr> file_name = ''a.cpp'', line_number = 12 \<rparr> ''ok''
     = Returned 0
   \<and> constexpr_assert 0 (0::int) False \<lparr> file_name = ''a.cpp'', line_number = 12 \<rparr> ''ok''
     = Returned 0"
  using constexpr_assert_returns_default
          [of 1 "0::int" True "\<lparr> file_name = ''a.cpp'', line_number = 12 \<rparr>" "''ok''" 0]
        constexpr_assert_returns_default
          [of 0 "0::int" False "\<lparr> file_name = ''a.cpp'', line_number = 12 \<rparr>" "''ok''" 0]
  by simp

end
